theory Spec2Isabelle
  imports Complex_Main "HOL-Library.AList"
begin

section \<open>Python values, exceptions and loops\<close>

text \<open>
  Indices and counts are naturals (the sources only ever use non-negative indices). A
  Python float is an IEEE 754 binary64 number: it is modelled as the real number it
  denotes (both zeros are the real 0), and every arithmetic operation rounds its exact
  result to the nearest binary64 number, ties to even.

  Every exception the modelled code can raise is a value of \<open>py_error\<close>; a computation
  that may raise returns \<open>py_error + 'a\<close> with \<open>Inl\<close> for the exception. Two values
  of \<open>py_error\<close> are not exceptions but mark a run of which the model says nothing more:
  \<open>NotFinite\<close>, where the result of a float operation is beyond the largest binary64
  number (the code goes on with an infinity), and \<open>Unchecked\<close>, where a function compiled
  by numba indexes an array outside its bounds (numba compiles no bounds check, and what
  the compiled function reads, writes or returns from there on is not determined by the
  source).
\<close>

datatype py_error =
  IndexError | KeyError | ZeroDivisionError | ValueError | OverflowError | LinAlgError
  | InversionException | NotFinite | Unchecked

text \<open>\<open>xs[i]\<close> on a Python list or a one-dimensional array.\<close>

definition getitem :: "'a list \<Rightarrow> nat \<Rightarrow> py_error + 'a" where
  "getitem xs i = (if i < length xs then Inr (xs ! i) else Inl IndexError)"

text \<open>A \<open>for\<close> loop over a fixed sequence whose body may raise.\<close>

fun for_loop :: "('a \<Rightarrow> 's \<Rightarrow> py_error + 's) \<Rightarrow> 'a list \<Rightarrow> 's \<Rightarrow> py_error + 's" where
  "for_loop body [] s = Inr s"
| "for_loop body (x # xs) s =
     (case body x s of Inl e \<Rightarrow> Inl e | Inr s' \<Rightarrow> for_loop body xs s')"

subsection \<open>Binary64 arithmetic\<close>

text \<open>The number of binary digits of a natural number.\<close>

fun bit_length :: "nat \<Rightarrow> nat" where
  "bit_length n = (if n = 0 then 0 else Suc (bit_length (n div 2)))"

declare bit_length.simps [simp del]

text \<open>
  For a positive real \<open>x\<close>, the integer \<open>e\<close> with \<open>2\<^sup>e \<le> x < 2\<^sup>e\<^sup>+\<^sup>1\<close>; and the
  powers of two with an integer exponent.
\<close>

definition binary_exponent :: "real \<Rightarrow> int" where
  "binary_exponent x =
     (if 1 \<le> x then int (bit_length (nat \<lfloor>x\<rfloor>)) - 1
      else - int (bit_length (nat (\<lceil>1 / x\<rceil> - 1))))"

definition pow2 :: "int \<Rightarrow> real" where
  "pow2 q = (if 0 \<le> q then 2 ^ nat q else 1 / 2 ^ nat (- q))"

text \<open>Rounding to the nearest integer, a tie going to the even one.\<close>

definition round_half_even :: "real \<Rightarrow> int" where
  "round_half_even x =
     (let n = \<lfloor>x\<rfloor>; d = x - of_int n in
      if d < 1 / 2 then n else if 1 / 2 < d then n + 1 else if even n then n else n + 1)"

text \<open>
  Rounding to binary64: 53 significant bits, so the unit in the last place of a number
  with binary exponent \<open>e\<close> is \<open>2\<^sup>e\<^sup>-\<^sup>5\<^sup>2\<close>; below the exponent -1022 the numbers are
  subnormal and the unit stays \<open>2\<^sup>-\<^sup>1\<^sup>0\<^sup>7\<^sup>4\<close>. A rounded number is finite when its
  exponent is at most 1023.
\<close>

definition round_float :: "real \<Rightarrow> real" where
  "round_float x =
     (if x = 0 then 0
      else let q = max (binary_exponent \<bar>x\<bar>) (- 1022) - 52
           in of_int (round_half_even (x / pow2 q)) * pow2 q)"

definition finite_float :: "real \<Rightarrow> py_error + real" where
  "finite_float x =
     (if x = 0 \<or> binary_exponent \<bar>x\<bar> < 1024 then Inr x else Inl NotFinite)"

text \<open>
  \<open>a + b\<close>, \<open>a * b\<close> and \<open>a / b\<close> on floats; a float division by zero raises, in
  Python and in a function compiled by numba alike.
\<close>

definition float_add :: "real \<Rightarrow> real \<Rightarrow> py_error + real" where
  "float_add a b = finite_float (round_float (a + b))"

definition float_mul :: "real \<Rightarrow> real \<Rightarrow> py_error + real" where
  "float_mul a b = finite_float (round_float (a * b))"

definition float_truediv :: "real \<Rightarrow> real \<Rightarrow> py_error + real" where
  "float_truediv a b =
     (if b = 0 then Inl ZeroDivisionError else finite_float (round_float (a / b)))"

text \<open>
  \<open>a // b\<close> on floats, as CPython computes it: the remainder of the C function
  \<open>fmod\<close> is exact and has the sign of \<open>a\<close>; the quotient is \<open>(a - remainder) / b\<close> in
  float arithmetic, less one if the remainder and \<open>b\<close> differ in sign, and then snapped
  to the nearest whole number.
\<close>

definition float_floordiv :: "real \<Rightarrow> real \<Rightarrow> py_error + real" where
  "float_floordiv vx wx =
     (if wx = 0 then Inl ZeroDivisionError
      else
        let rem = vx - wx * of_int (if 0 \<le> vx / wx then \<lfloor>vx / wx\<rfloor> else \<lceil>vx / wx\<rceil>);
            d = round_float (round_float (vx - rem) / wx);
            quot = (if rem \<noteq> 0 \<and> (wx < 0) \<noteq> (rem < 0) then round_float (d - 1) else d);
            whole = of_int \<lfloor>quot\<rfloor>
        in finite_float
             (if quot = 0 then 0
              else if 1 / 2 < quot - whole then round_float (whole + 1) else whole))"



section \<open>covariance\_matrix.py: the mapping matrix\<close>

text \<open>
  A pixel map \<open>{int: float}\<close> is an association list in insertion order; a Python
  dictionary never holds a key twice, so its keys are distinct.
\<close>

type_synonym pixel_map = "(nat \<times> real) list"

text \<open>The value a sparse row holds at a key, zero where the key is absent.\<close>

definition entry :: "pixel_map list \<Rightarrow> nat \<Rightarrow> nat \<Rightarrow> real" where
  "entry f r obs = (case map_of (f ! r) obs of None \<Rightarrow> 0 | Some v \<Rightarrow> v)"




section \<open>covariance\_matrix.py: the D matrix and the covariance generator\<close>

text \<open>\<open>d[k]\<close> on a dictionary.\<close>

definition dict_getitem :: "pixel_map \<Rightarrow> nat \<Rightarrow> py_error + real" where
  "dict_getitem d k = (case map_of d k of None \<Rightarrow> Inl KeyError | Some v \<Rightarrow> Inr v)"

text \<open>\<open>list(map(f, xs))\<close> for an \<open>f\<close> that may raise.\<close>

fun map_raise :: "('a \<Rightarrow> py_error + 'b) \<Rightarrow> 'a list \<Rightarrow> py_error + 'b list" where
  "map_raise f [] = Inr []"
| "map_raise f (x # xs) =
     (case f x of Inl e \<Rightarrow> Inl e
      | Inr y \<Rightarrow> (case map_raise f xs of Inl e \<Rightarrow> Inl e | Inr ys \<Rightarrow> Inr (y # ys)))"

text \<open>
  The statement \<open>value += image_vector[index] * pixel_map[index] // noise_vector[index]\<close>
  of \<open>create_d_matrix\<close>: the product first, then its floor division by the noise
  value, then the addition to \<open>value\<close>.
\<close>

definition d_matrix_term :: "real list \<Rightarrow> real list \<Rightarrow> pixel_map \<Rightarrow> nat \<Rightarrow> real \<Rightarrow> py_error + real" where
  "d_matrix_term noise_vector image_vector pixel_map index val =
     (case getitem image_vector index of Inl e \<Rightarrow> Inl e | Inr im \<Rightarrow>
       (case dict_getitem pixel_map index of Inl e \<Rightarrow> Inl e | Inr w \<Rightarrow>
         (case getitem noise_vector index of Inl e \<Rightarrow> Inl e | Inr nz \<Rightarrow>
           (case float_mul im w of Inl e \<Rightarrow> Inl e | Inr p \<Rightarrow>
             (case float_floordiv p nz of Inl e \<Rightarrow> Inl e | Inr q \<Rightarrow> float_add val q)))))"

definition value_for_pixel_map :: "real list \<Rightarrow> real list \<Rightarrow> pixel_map \<Rightarrow> py_error + real" where
  "value_for_pixel_map noise_vector image_vector pixel_map =
     for_loop (d_matrix_term noise_vector image_vector pixel_map) (map fst pixel_map) 0"

definition create_d_matrix :: "pixel_map list \<Rightarrow> real list \<Rightarrow> real list \<Rightarrow> py_error + real list" where
  "create_d_matrix pixel_maps noise_vector image_vector =
     map_raise (value_for_pixel_map noise_vector image_vector) pixel_maps"

record generator =
  pixel_maps :: "pixel_map list"
  noise_vector :: "real list"
  graph :: "nat list list"
  calculated_covariances :: "nat \<times> nat \<rightharpoonup> real"
  non_zero_covariances :: "nat \<times> nat \<rightharpoonup> real"
  neighbour_search_limit :: real
  no_source_pixels :: nat
  neighbour_lists :: "nat list list"

definition CovarianceMatrixGenerator ::
  "pixel_map list \<Rightarrow> real list \<Rightarrow> nat list list \<Rightarrow> real \<Rightarrow> generator" where
  "CovarianceMatrixGenerator pms nv gr limit =
     \<lparr>pixel_maps = pms, noise_vector = nv, graph = gr,
      calculated_covariances = Map.empty, non_zero_covariances = Map.empty,
      neighbour_search_limit = limit, no_source_pixels = length pms,
      neighbour_lists = replicate (length pms) []\<rparr>"

text \<open>
  The list comprehension of \<open>calculate_covariance\<close>: one term
  \<open>mapping_dict_1[i] * mapping_dict_2[i] // noise_vector[i]\<close> for every key \<open>i\<close> of
  the first dictionary that is also a key of the second; \<open>sum\<close> adds the terms from
  the left, starting from 0.
\<close>

definition covariance_term :: "real list \<Rightarrow> pixel_map \<Rightarrow> pixel_map \<Rightarrow> nat \<Rightarrow> py_error + real" where
  "covariance_term nv mapping_dict_1 mapping_dict_2 i =
     (case dict_getitem mapping_dict_1 i of Inl e \<Rightarrow> Inl e | Inr w1 \<Rightarrow>
       (case dict_getitem mapping_dict_2 i of Inl e \<Rightarrow> Inl e | Inr w2 \<Rightarrow>
         (case getitem nv i of Inl e \<Rightarrow> Inl e | Inr nz \<Rightarrow>
           (case float_mul w1 w2 of Inl e \<Rightarrow> Inl e | Inr p \<Rightarrow> float_floordiv p nz))))"

definition float_sum :: "real list \<Rightarrow> py_error + real" where
  "float_sum terms = for_loop (\<lambda>t acc. float_add acc t) terms 0"

definition calculate_covariance :: "generator \<Rightarrow> nat \<Rightarrow> nat \<Rightarrow> py_error + real" where
  "calculate_covariance g source_index_a source_index_b =
     (case getitem (pixel_maps g) source_index_a of Inl e \<Rightarrow> Inl e | Inr mapping_dict_1 \<Rightarrow>
       (case getitem (pixel_maps g) source_index_b of Inl e \<Rightarrow> Inl e | Inr mapping_dict_2 \<Rightarrow>
         (case map_raise (covariance_term (noise_vector g) mapping_dict_1 mapping_dict_2)
                 (filter (\<lambda>i. map_of mapping_dict_2 i \<noteq> None) (map fst mapping_dict_1)) of
            Inl e \<Rightarrow> Inl e
          | Inr terms \<Rightarrow> float_sum terms)))"

text \<open>The memoised lookup; it returns the value and the generator with its cache updated.\<close>

definition add_covariance_for_indices :: "generator \<Rightarrow> nat \<Rightarrow> nat \<Rightarrow> py_error + real \<times> generator" where
  "add_covariance_for_indices g source_index_a source_index_b =
     (let tup = (source_index_a, source_index_b) in
      (case calculated_covariances g tup of
         Some v \<Rightarrow> Inr (v, g)
       | None \<Rightarrow>
           (case (case calculated_covariances g (source_index_b, source_index_a) of
                    Some v \<Rightarrow> Inr v
                  | None \<Rightarrow> calculate_covariance g source_index_a source_index_b) of
              Inl e \<Rightarrow> Inl e
            | Inr v \<Rightarrow>
                Inr (v, g\<lparr>calculated_covariances := (calculated_covariances g)(tup \<mapsto> v)\<rparr>))))"

subsection \<open>BreadthFirstSearch\<close>

record bfs =
  bfs_graph :: "nat list list"
  queue :: "nat list"
  visited :: "nat set"

definition BreadthFirstSearch :: "nat list list \<Rightarrow> bfs" where
  "BreadthFirstSearch gr = \<lparr>bfs_graph = gr, queue = [], visited = {}\<rparr>"

text \<open>The body of the loop of \<open>add_neighbours_of\<close>.\<close>

definition visit_neighbour :: "nat \<Rightarrow> bfs \<Rightarrow> bfs" where
  "visit_neighbour neighbour b =
     (if neighbour \<notin> visited b
      then b\<lparr>visited := insert neighbour (visited b), queue := queue b @ [neighbour]\<rparr>
      else b)"

definition add_neighbours_of :: "bfs \<Rightarrow> nat \<Rightarrow> py_error + bfs" where
  "add_neighbours_of b index =
     (let b1 = b\<lparr>visited := insert index (visited b)\<rparr> in
      (case getitem (bfs_graph b1) index of
         Inl e \<Rightarrow> Inl e
       | Inr ns \<Rightarrow> Inr (fold visit_neighbour ns b1)))"

text \<open>
  The generator \<open>neighbours\<close>: while the queue is not empty it yields the head of the
  queue; \<open>None\<close> when the generator is exhausted.
\<close>

definition neighbours :: "bfs \<Rightarrow> (nat \<times> bfs) option" where
  "neighbours b = (case queue b of [] \<Rightarrow> None | index # rest \<Rightarrow> Some (index, b\<lparr>queue := rest\<rparr>))"

text \<open>
  The measure of the search: every index still unvisited among those the graph mentions
  counts twice, every queued index once.
\<close>

definition bfs_measure :: "bfs \<Rightarrow> nat" where
  "bfs_measure b = 2 * card (set (concat (bfs_graph b)) - visited b) + length (queue b)"

lemma visit_neighbour_graph: "bfs_graph (visit_neighbour n b) = bfs_graph b"
  by (simp add: visit_neighbour_def)

lemma fold_visit_neighbour_graph: "bfs_graph (fold visit_neighbour ns b) = bfs_graph b"
  by (induction ns arbitrary: b) (simp_all add: visit_neighbour_graph)

lemma visit_neighbour_measure:
  assumes "n \<in> set (concat (bfs_graph b))"
  shows "bfs_measure (visit_neighbour n b) \<le> bfs_measure b"
proof (cases "n \<in> visited b")
  case True
  then show ?thesis by (simp add: visit_neighbour_def)
next
  case False
  let ?U = "set (concat (bfs_graph b))"
  have "n \<in> ?U - visited b" using assms False by simp
  moreover have "finite (?U - visited b)" by simp
  ultimately have "card (?U - insert n (visited b)) < card (?U - visited b)"
    by (metis Diff_insert card_Diff1_less)
  then show ?thesis
    using False by (simp add: visit_neighbour_def bfs_measure_def)
qed

lemma fold_visit_neighbour_measure:
  "set ns \<subseteq> set (concat (bfs_graph b)) \<Longrightarrow>
   bfs_measure (fold visit_neighbour ns b) \<le> bfs_measure b"
proof (induction ns arbitrary: b)
  case Nil
  then show ?case by simp
next
  case (Cons n ns)
  have "bfs_measure (fold visit_neighbour ns (visit_neighbour n b)) \<le>
        bfs_measure (visit_neighbour n b)"
    using Cons.prems by (intro Cons.IH) (simp add: visit_neighbour_graph)
  also have "\<dots> \<le> bfs_measure b"
    using Cons.prems by (intro visit_neighbour_measure) simp
  finally show ?case by simp
qed

lemma add_neighbours_of_measure:
  assumes "add_neighbours_of b index = Inr b'"
  shows "bfs_measure b' \<le> bfs_measure b"
proof -
  let ?b1 = "b\<lparr>visited := insert index (visited b)\<rparr>"
  from assms have i: "index < length (bfs_graph b)"
    and b': "b' = fold visit_neighbour (bfs_graph b ! index) ?b1"
    by (auto simp: add_neighbours_of_def getitem_def Let_def split: if_splits)
  have "set (bfs_graph b ! index) \<subseteq> set (concat (bfs_graph ?b1))"
    using i by (auto intro!: bexI [of _ "bfs_graph b ! index"])
  then have "bfs_measure b' \<le> bfs_measure ?b1"
    unfolding b' by (rule fold_visit_neighbour_measure)
  also have "\<dots> \<le> bfs_measure b"
    by (auto simp: bfs_measure_def intro!: card_mono)
  finally show ?thesis .
qed

subsection \<open>The contiguous and the non-contiguous pass\<close>

text \<open>
  The loop \<open>for index in bfs.neighbours(): ...\<close> of \<open>find_contiguous_covariances\<close>,
  from the state of the generator and of the search at the head of an iteration.
\<close>

function contiguous_loop :: "nat \<Rightarrow> generator \<Rightarrow> bfs \<Rightarrow> py_error + generator \<times> bfs" where
  "contiguous_loop source_index g b =
     (case neighbours b of
        None \<Rightarrow> Inr (g, b)
      | Some (index, b1) \<Rightarrow>
          (case add_covariance_for_indices g source_index index of
             Inl e \<Rightarrow> Inl e
           | Inr (result, g1) \<Rightarrow>
               if result > neighbour_search_limit g1 then
                 (case getitem (neighbour_lists g1) source_index of
                    Inl e \<Rightarrow> Inl e
                  | Inr l \<Rightarrow>
                      (case add_neighbours_of b1 index of
                         Inl e \<Rightarrow> Inl e
                       | Inr b2 \<Rightarrow>
                           contiguous_loop source_index
                             (g1\<lparr>neighbour_lists := (neighbour_lists g1)[source_index := l @ [index]],
                                 non_zero_covariances :=
                                   (non_zero_covariances g1)((source_index, index) \<mapsto> result)\<rparr>)
                             b2))
               else contiguous_loop source_index g1 b1))"
  by pat_completeness auto
termination
proof (relation "measure (\<lambda>(s, g, b). bfs_measure b)")
  show "wf (measure (\<lambda>(s, g, b). bfs_measure b))" by simp
next
  fix source_index g b x2 index b1 x2a result g1 l b2
  assume "neighbours b = Some x2" "(index, b1) = x2" "add_neighbours_of b1 index = Inr b2"
  then have "bfs_measure b1 < bfs_measure b"
    by (auto simp: neighbours_def bfs_measure_def split: list.splits)
  moreover have "bfs_measure b2 \<le> bfs_measure b1"
    using \<open>add_neighbours_of b1 index = Inr b2\<close> by (rule add_neighbours_of_measure)
  ultimately show "((source_index,
          g1\<lparr>neighbour_lists := (neighbour_lists g1)[source_index := l @ [index]],
             non_zero_covariances :=
               (non_zero_covariances g1)((source_index, index) \<mapsto> result)\<rparr>, b2),
         source_index, g, b) \<in> measure (\<lambda>(s, g, b). bfs_measure b)"
    by simp
next
  fix source_index g b x2 index b1 x2a result g1
  assume "neighbours b = Some x2" "(index, b1) = x2"
  then show "((source_index, g1, b1), source_index, g, b) \<in> measure (\<lambda>(s, g, b). bfs_measure b)"
    by (auto simp: neighbours_def bfs_measure_def split: list.splits)
qed

definition find_contiguous_covariances :: "generator \<Rightarrow> nat \<Rightarrow> py_error + generator" where
  "find_contiguous_covariances g source_index =
     (case add_covariance_for_indices g source_index source_index of
        Inl e \<Rightarrow> Inl e
      | Inr (v, g1) \<Rightarrow>
          (let g2 = g1\<lparr>non_zero_covariances :=
                        (non_zero_covariances g1)((source_index, source_index) \<mapsto> v)\<rparr>
           in (case add_neighbours_of (BreadthFirstSearch (graph g2)) source_index of
                 Inl e \<Rightarrow> Inl e
               | Inr b \<Rightarrow>
                   (case contiguous_loop source_index g2 b of
                      Inl e \<Rightarrow> Inl e
                    | Inr (g3, b') \<Rightarrow> Inr g3))))"

definition find_all_contiguous_covariances :: "generator \<Rightarrow> py_error + generator" where
  "find_all_contiguous_covariances g =
     for_loop (\<lambda>index g'. find_contiguous_covariances g' index) [0..<no_source_pixels g] g"

text \<open>The body of the innermost loop of \<open>find_all_non_contiguous_covariances\<close>.\<close>

definition non_contiguous_pair :: "nat \<Rightarrow> nat \<Rightarrow> generator \<Rightarrow> py_error + generator" where
  "non_contiguous_pair a b g =
     (if a \<noteq> b then
        (case add_covariance_for_indices g a b of
           Inl e \<Rightarrow> Inl e
         | Inr (result, g1) \<Rightarrow>
             if result > 0
             then Inr (g1\<lparr>non_zero_covariances := (non_zero_covariances g1)((a, b) \<mapsto> result)\<rparr>)
             else Inr g1)
      else Inr g)"

definition find_all_non_contiguous_covariances :: "generator \<Rightarrow> py_error + generator" where
  "find_all_non_contiguous_covariances g =
     for_loop (\<lambda>l. for_loop (\<lambda>a. for_loop (\<lambda>b. non_contiguous_pair a b) l) l)
       (neighbour_lists g) g"

definition create_covariance_matrix ::
  "pixel_map list \<Rightarrow> real list \<Rightarrow> nat list list \<Rightarrow> real \<Rightarrow> py_error + (nat \<times> nat \<rightharpoonup> real)" where
  "create_covariance_matrix pms nv gr limit =
     (case find_all_contiguous_covariances (CovarianceMatrixGenerator pms nv gr limit) of
        Inl e \<Rightarrow> Inl e
      | Inr g1 \<Rightarrow>
          (case find_all_non_contiguous_covariances g1 of
             Inl e \<Rightarrow> Inl e
           | Inr g2 \<Rightarrow> Inr (non_zero_covariances g2)))"

subsection \<open>Invariants of the generator\<close>

text \<open>
  The cache holds one value for a pair and its mirror, and every recorded covariance is
  a cached one.
\<close>

definition cache_consistent :: "generator \<Rightarrow> bool" where
  "cache_consistent g \<longleftrightarrow>
     (\<forall>a b v w. calculated_covariances g (a, b) = Some v \<longrightarrow>
        calculated_covariances g (b, a) = Some w \<longrightarrow> v = w) \<and>
     (\<forall>k v. non_zero_covariances g k = Some v \<longrightarrow> calculated_covariances g k = Some v)"

text \<open>
  Relative to the generator \<open>g0\<close> at construction: the cached value of a diagonal pair
  is the one \<open>calculate_covariance\<close> computes, and a recorded diagonal value is the cached one.
\<close>

definition diagonal_sound :: "generator \<Rightarrow> generator \<Rightarrow> bool" where
  "diagonal_sound g0 h \<longleftrightarrow>
     pixel_maps h = pixel_maps g0 \<and> noise_vector h = noise_vector g0 \<and>
     no_source_pixels h = no_source_pixels g0 \<and>
     (\<forall>a v. calculated_covariances h (a, a) = Some v \<longrightarrow> calculate_covariance g0 a a = Inr v) \<and>
     (\<forall>a v. non_zero_covariances h (a, a) = Some v \<longrightarrow> calculated_covariances h (a, a) = Some v)"

section \<open>inversions.py\<close>

text \<open>
  A two-dimensional array: its shape and its items. The three loops of this module are
  compiled by numba in \<open>nopython\<close> mode, which checks no array bounds: an index outside
  an array ends the run of the model with \<open>Unchecked\<close>.
\<close>

record ndarray2 =
  shape0 :: nat
  shape1 :: nat
  item :: "nat \<Rightarrow> nat \<Rightarrow> real"

definition zeros2 :: "nat \<Rightarrow> nat \<Rightarrow> ndarray2" where
  "zeros2 n m = \<lparr>shape0 = n, shape1 = m, item = (\<lambda>i j. 0)\<rparr>"

text \<open>\<open>m[i, j] = v\<close> and \<open>m[i, j]\<close> in a compiled function.\<close>

definition setitem2 :: "ndarray2 \<Rightarrow> nat \<Rightarrow> nat \<Rightarrow> real \<Rightarrow> py_error + ndarray2" where
  "setitem2 m i j v =
     (if i < shape0 m \<and> j < shape1 m
      then Inr (m\<lparr>item := (\<lambda>i' j'. if i' = i \<and> j' = j then v else item m i' j')\<rparr>)
      else Inl Unchecked)"

definition getitem2 :: "ndarray2 \<Rightarrow> nat \<Rightarrow> nat \<Rightarrow> py_error + real" where
  "getitem2 m i j = (if i < shape0 m \<and> j < shape1 m then Inr (item m i j) else Inl Unchecked)"

text \<open>\<open>xs[i]\<close> and \<open>xs[i] = v\<close> on a one-dimensional array in a compiled function.\<close>

definition unchecked_getitem :: "'a list \<Rightarrow> nat \<Rightarrow> py_error + 'a" where
  "unchecked_getitem xs i = (if i < length xs then Inr (xs ! i) else Inl Unchecked)"

definition setitem :: "'a list \<Rightarrow> nat \<Rightarrow> 'a \<Rightarrow> py_error + 'a list" where
  "setitem xs i v = (if i < length xs then Inr (xs[i := v]) else Inl Unchecked)"

text \<open>
  The statement of the inner loop of \<open>data_vector_from_blurred_mapping_matrix_and_data\<close>:
  \<open>data_vector[pix_index] += image[image_index] * blurred_mapping_matrix[image_index, pix_index]
  / (noise_map[image_index] ** 2.0)\<close>, the power being the rounded square.
\<close>

definition data_vector_step ::
  "ndarray2 \<Rightarrow> real list \<Rightarrow> real list \<Rightarrow> nat \<Rightarrow> nat \<Rightarrow> real list \<Rightarrow> py_error + real list" where
  "data_vector_step blurred_mapping_matrix image_v noise_map image_index pix_index data_vector =
     (case unchecked_getitem data_vector pix_index of Inl e \<Rightarrow> Inl e | Inr old \<Rightarrow>
       (case unchecked_getitem image_v image_index of Inl e \<Rightarrow> Inl e | Inr im \<Rightarrow>
         (case unchecked_getitem noise_map image_index of Inl e \<Rightarrow> Inl e | Inr nz \<Rightarrow>
           (case float_mul im (item blurred_mapping_matrix image_index pix_index) of
              Inl e \<Rightarrow> Inl e
            | Inr p \<Rightarrow>
                (case float_mul nz nz of Inl e \<Rightarrow> Inl e | Inr n2 \<Rightarrow>
                  (case float_truediv p n2 of Inl e \<Rightarrow> Inl e | Inr q \<Rightarrow>
                    (case float_add old q of
                       Inl e \<Rightarrow> Inl e
                     | Inr v \<Rightarrow> setitem data_vector pix_index v)))))))"

definition data_vector_from_blurred_mapping_matrix_and_data ::
  "ndarray2 \<Rightarrow> real list \<Rightarrow> real list \<Rightarrow> py_error + real list" where
  "data_vector_from_blurred_mapping_matrix_and_data blurred_mapping_matrix image_v noise_map =
     for_loop
       (\<lambda>image_index.
          for_loop (data_vector_step blurred_mapping_matrix image_v noise_map image_index)
            [0..<shape1 blurred_mapping_matrix])
       [0..<shape0 blurred_mapping_matrix]
       (replicate (shape1 blurred_mapping_matrix) 0)"

text \<open>
  \<open>curvature_matrix_from_blurred_mapping_matrix_jit\<close>. The first inner loop collects the
  positive entries of one row of the mapping matrix into \<open>flist\<close> and \<open>iflist\<close>; the
  counter \<open>index\<close> is incremented before it is used.
\<close>

definition curvature_collect ::
  "ndarray2 \<Rightarrow> real list \<Rightarrow> nat \<Rightarrow> nat \<Rightarrow> nat \<times> real list \<times> nat list \<Rightarrow>
     py_error + nat \<times> real list \<times> nat list" where
  "curvature_collect blurred_mapping_matrix noise_map image_index pixel_index st =
     (case st of (index, flist, iflist) \<Rightarrow>
        if item blurred_mapping_matrix image_index pixel_index > 0 then
          (case unchecked_getitem noise_map image_index of Inl e \<Rightarrow> Inl e | Inr nz \<Rightarrow>
            (case float_truediv (item blurred_mapping_matrix image_index pixel_index) nz of
               Inl e \<Rightarrow> Inl e
             | Inr q \<Rightarrow>
                 (case setitem flist (index + 1) q of Inl e \<Rightarrow> Inl e | Inr flist' \<Rightarrow>
                   (case setitem iflist (index + 1) pixel_index of Inl e \<Rightarrow> Inl e | Inr iflist' \<Rightarrow>
                      Inr (index + 1, flist', iflist')))))
        else Inr st)"

definition curvature_accumulate ::
  "real list \<Rightarrow> nat list \<Rightarrow> nat \<Rightarrow> nat \<Rightarrow> ndarray2 \<Rightarrow> py_error + ndarray2" where
  "curvature_accumulate flist iflist i1 j1 curvature_matrix =
     (case unchecked_getitem iflist i1 of Inl e \<Rightarrow> Inl e | Inr ix \<Rightarrow>
       (case unchecked_getitem iflist j1 of Inl e \<Rightarrow> Inl e | Inr iy \<Rightarrow>
         (case getitem2 curvature_matrix ix iy of Inl e \<Rightarrow> Inl e | Inr old \<Rightarrow>
           (case unchecked_getitem flist i1 of Inl e \<Rightarrow> Inl e | Inr f1 \<Rightarrow>
             (case unchecked_getitem flist j1 of Inl e \<Rightarrow> Inl e | Inr f2 \<Rightarrow>
               (case float_mul f1 f2 of Inl e \<Rightarrow> Inl e | Inr p \<Rightarrow>
                 (case float_add old p of
                    Inl e \<Rightarrow> Inl e
                  | Inr v \<Rightarrow> setitem2 curvature_matrix ix iy v)))))))"

definition curvature_row ::
  "ndarray2 \<Rightarrow> real list \<Rightarrow> nat \<Rightarrow> ndarray2 \<times> real list \<times> nat list \<Rightarrow>
     py_error + ndarray2 \<times> real list \<times> nat list" where
  "curvature_row blurred_mapping_matrix noise_map image_index st =
     (case st of (curvature_matrix, flist, iflist) \<Rightarrow>
       (case for_loop (curvature_collect blurred_mapping_matrix noise_map image_index)
               [0..<shape1 blurred_mapping_matrix] (0, flist, iflist) of
          Inl e \<Rightarrow> Inl e
        | Inr (index, flist', iflist') \<Rightarrow>
            if index > 0 then
              (case for_loop
                      (\<lambda>i1. for_loop (curvature_accumulate flist' iflist' i1) [0..<index + 1])
                      [0..<index + 1] curvature_matrix of
                 Inl e \<Rightarrow> Inl e
               | Inr curvature_matrix' \<Rightarrow> Inr (curvature_matrix', flist', iflist'))
            else Inr (curvature_matrix, flist', iflist')))"

text \<open>The final loop: \<open>curvature_matrix[i, j] = curvature_matrix[j, i]\<close>.\<close>

definition curvature_mirror :: "nat \<Rightarrow> nat \<Rightarrow> ndarray2 \<Rightarrow> py_error + ndarray2" where
  "curvature_mirror i j curvature_matrix =
     (case getitem2 curvature_matrix j i of
        Inl e \<Rightarrow> Inl e
      | Inr v \<Rightarrow> setitem2 curvature_matrix i j v)"

definition curvature_matrix_from_blurred_mapping_matrix_jit ::
  "ndarray2 \<Rightarrow> real list \<Rightarrow> real list \<Rightarrow> nat list \<Rightarrow> py_error + ndarray2" where
  "curvature_matrix_from_blurred_mapping_matrix_jit blurred_mapping_matrix noise_map flist iflist =
     (case for_loop (curvature_row blurred_mapping_matrix noise_map)
             [0..<shape0 blurred_mapping_matrix]
             (zeros2 (shape1 blurred_mapping_matrix) (shape1 blurred_mapping_matrix),
              flist, iflist) of
        Inl e \<Rightarrow> Inl e
      | Inr (curvature_matrix, flist', iflist') \<Rightarrow>
          for_loop (\<lambda>i. for_loop (curvature_mirror i) [0..<shape1 blurred_mapping_matrix])
            [0..<shape1 blurred_mapping_matrix] curvature_matrix)"

definition curvature_matrix_from_blurred_mapping_matrix ::
  "ndarray2 \<Rightarrow> real list \<Rightarrow> py_error + ndarray2" where
  "curvature_matrix_from_blurred_mapping_matrix blurred_mapping_matrix noise_map =
     curvature_matrix_from_blurred_mapping_matrix_jit blurred_mapping_matrix noise_map
       (replicate (shape0 blurred_mapping_matrix) 0)
       (replicate (shape0 blurred_mapping_matrix) 0)"

text \<open>
  \<open>np.add\<close> on two-dimensional arrays, with numpy's broadcasting of an axis of length
  one; shapes that do not broadcast raise \<open>ValueError\<close>. Every item of the result is
  the rounded sum of the two items.
\<close>

definition broadcast_dim :: "nat \<Rightarrow> nat \<Rightarrow> nat option" where
  "broadcast_dim a b =
     (if a = b then Some a else if a = 1 then Some b else if b = 1 then Some a else None)"

definition np_add :: "ndarray2 \<Rightarrow> ndarray2 \<Rightarrow> py_error + ndarray2" where
  "np_add a b =
     (case (broadcast_dim (shape0 a) (shape0 b), broadcast_dim (shape1 a) (shape1 b)) of
        (Some n, Some m) \<Rightarrow>
          (let items = (\<lambda>i j. round_float
                 (item a (if shape0 a = 1 then 0 else i) (if shape1 a = 1 then 0 else j)
                  + item b (if shape0 b = 1 then 0 else i) (if shape1 b = 1 then 0 else j)))
           in if list_all (\<lambda>i. list_all (\<lambda>j. finite_float (items i j) = Inr (items i j)) [0..<m])
                   [0..<n]
              then Inr \<lparr>shape0 = n, shape1 = m, item = items\<rparr>
              else Inl NotFinite)
      | _ \<Rightarrow> Inl ValueError)"

record inversion =
  blurred_mapping_matrix :: ndarray2
  regularization_matrix :: ndarray2
  curvature_matrix :: ndarray2
  curvature_reg_matrix :: ndarray2
  solution_vector :: "real list"

text \<open>
  \<open>inversion_from_mapper_regularization_and_data\<close>. The convolver, the mapper and the
  regularization scheme are collaborators outside these sources: the function is given
  what their calls return, the blurred mapping matrix and the regularization matrix.
  The numpy routine \<open>np.linalg.solve\<close> is the parameter \<open>solve\<close>.
\<close>

definition inversion_from_mapper_regularization_and_data ::
  "(ndarray2 \<Rightarrow> real list \<Rightarrow> py_error + real list) \<Rightarrow>
   real list \<Rightarrow> real list \<Rightarrow> ndarray2 \<Rightarrow> ndarray2 \<Rightarrow> py_error + inversion" where
  "inversion_from_mapper_regularization_and_data solve image_v noise_map bmm reg =
     (case data_vector_from_blurred_mapping_matrix_and_data bmm image_v noise_map of
        Inl e \<Rightarrow> Inl e
      | Inr data_vector \<Rightarrow>
          (case curvature_matrix_from_blurred_mapping_matrix bmm noise_map of
             Inl e \<Rightarrow> Inl e
           | Inr cm \<Rightarrow>
               (case np_add cm reg of
                  Inl e \<Rightarrow> Inl e
                | Inr crm \<Rightarrow>
                    (case solve crm data_vector of
                       Inl e \<Rightarrow> Inl e
                     | Inr sv \<Rightarrow>
                         Inr \<lparr>blurred_mapping_matrix = bmm, regularization_matrix = reg,
                              curvature_matrix = cm, curvature_reg_matrix = crm,
                              solution_vector = sv\<rparr>))))"

text \<open>\<open>np.diag\<close> of a two-dimensional array.\<close>

definition np_diag :: "ndarray2 \<Rightarrow> real list" where
  "np_diag m = map (\<lambda>i. item m i i) [0..<min (shape0 m) (shape1 m)]"

text \<open>
  \<open>Inversion.log_determinant_of_matrix_cholesky\<close>, with \<open>np.linalg.cholesky\<close> the
  parameter \<open>cholesky\<close>: the \<open>except\<close> clause catches \<open>LinAlgError\<close> only and raises
  \<open>InversionException\<close> in its place.
\<close>

definition log_determinant_of_matrix_cholesky ::
  "(ndarray2 \<Rightarrow> py_error + ndarray2) \<Rightarrow> ndarray2 \<Rightarrow> py_error + real" where
  "log_determinant_of_matrix_cholesky cholesky matrix =
     (case cholesky matrix of
        Inl LinAlgError \<Rightarrow> Inl InversionException
      | Inl e \<Rightarrow> Inl e
      | Inr l \<Rightarrow> Inr (2 * sum_list (map ln (np_diag l))))"

definition log_det_curvature_reg_matrix_term ::
  "(ndarray2 \<Rightarrow> py_error + ndarray2) \<Rightarrow> inversion \<Rightarrow> py_error + real" where
  "log_det_curvature_reg_matrix_term cholesky self =
     log_determinant_of_matrix_cholesky cholesky (curvature_reg_matrix self)"

definition log_det_regularization_matrix_term ::
  "(ndarray2 \<Rightarrow> py_error + ndarray2) \<Rightarrow> inversion \<Rightarrow> py_error + real" where
  "log_det_regularization_matrix_term cholesky self =
     log_determinant_of_matrix_cholesky cholesky (regularization_matrix self)"

subsection \<open>The numpy routines, in exact arithmetic\<close>

text \<open>
  \<open>np.linalg.solve\<close> and \<open>np.linalg.cholesky\<close> belong to numpy, not to these sources.
  For concrete runs they are given here as numpy documents them, over the reals: \<open>solve\<close>
  raises \<open>LinAlgError\<close> for a matrix that is not square or is singular and otherwise
  returns the unique solution (by Cramer's rule); \<open>cholesky\<close> builds the lower triangular
  factor row by row, \<open>L[i][j] = (A[i][j] - \<Sum>\<^sub>k\<^sub><\<^sub>j L[i][k] L[j][k]) / L[j][j]\<close> below the
  diagonal and \<open>L[i][i] = sqrt (A[i][i] - \<Sum>\<^sub>k\<^sub><\<^sub>i L[i][k]\<^sup>2)\<close> on it, and raises
  \<open>LinAlgError\<close> as soon as the number under a root is not positive. They are used only
  on matrices on which the arithmetic of numpy is exact.
\<close>

function det_minor :: "(nat \<Rightarrow> nat \<Rightarrow> real) \<Rightarrow> nat \<Rightarrow> nat list \<Rightarrow> real" where
  "det_minor a r cs =
     (if cs = [] then 1
      else sum_list (map (\<lambda>k. (- 1) ^ k * a r (cs ! k) * det_minor a (Suc r) (take k cs @ drop (Suc k) cs))
                      [0..<length cs]))"
  by pat_completeness auto
termination
  by (relation "measure (\<lambda>(a, r, cs). length cs)") auto

definition det :: "ndarray2 \<Rightarrow> real" where
  "det m = det_minor (item m) 0 [0..<shape1 m]"

definition linalg_solve :: "ndarray2 \<Rightarrow> real list \<Rightarrow> py_error + real list" where
  "linalg_solve a b =
     (if shape0 a \<noteq> shape1 a then Inl LinAlgError
      else if length b \<noteq> shape0 a then Inl ValueError
      else if det a = 0 then Inl LinAlgError
      else Inr (map (\<lambda>j. det (a\<lparr>item := (\<lambda>r c. if c = j then b ! r else item a r c)\<rparr>) / det a)
                  [0..<shape1 a]))"

definition cholesky_row :: "(nat \<Rightarrow> nat \<Rightarrow> real) \<Rightarrow> real list list \<Rightarrow> nat \<Rightarrow> py_error + real list" where
  "cholesky_row a l i =
     for_loop
       (\<lambda>j row.
          if j = i then
            (let s = sum_list (map (\<lambda>k. row ! k * row ! k) [0..<i]) in
             if a i i - s \<le> 0 then Inl LinAlgError else Inr (row @ [sqrt (a i i - s)]))
          else
            (let s = sum_list (map (\<lambda>k. row ! k * l ! j ! k) [0..<j]) in
             Inr (row @ [(a i j - s) / l ! j ! j])))
       [0..<Suc i] []"

definition linalg_cholesky :: "ndarray2 \<Rightarrow> py_error + ndarray2" where
  "linalg_cholesky m =
     (if shape0 m \<noteq> shape1 m then Inl LinAlgError
      else
        (case for_loop
                (\<lambda>i l. case cholesky_row (item m) l i of Inl e \<Rightarrow> Inl e | Inr row \<Rightarrow> Inr (l @ [row]))
                [0..<shape0 m] [] of
           Inl e \<Rightarrow> Inl e
         | Inr l \<Rightarrow>
             Inr \<lparr>shape0 = shape0 m, shape1 = shape1 m,
                  item = (\<lambda>i j. if j \<le> i then l ! i ! j else 0)\<rparr>))"

text \<open>The quadratic form \<open>x\<^sup>T A x\<close>, and positive definiteness of a square matrix.\<close>

definition quadratic_form :: "ndarray2 \<Rightarrow> real list \<Rightarrow> real" where
  "quadratic_form a x =
     sum_list (map (\<lambda>i. sum_list (map (\<lambda>j. x ! i * item a i j * x ! j) [0..<shape1 a]))
                 [0..<shape0 a])"

definition positive_definite :: "ndarray2 \<Rightarrow> bool" where
  "positive_definite a \<longleftrightarrow>
     shape0 a = shape1 a \<and>
     (\<forall>x. length x = shape0 a \<and> (\<exists>i < length x. x ! i \<noteq> 0) \<longrightarrow> 0 < quadratic_form a x)"

section \<open>The regularization matrix\<close>

text \<open>Dense matrices as lists of rows, for the regularization matrix and its test.\<close>

definition matmul :: "real list list \<Rightarrow> real list list \<Rightarrow> real list list" where
  "matmul a b = map (\<lambda>row. map (\<lambda>col. sum_list (map2 (*) row col)) (transpose b)) a"

text \<open>\<open>h[i, j] += v\<close>; an index outside the matrix raises.\<close>

definition add_at :: "nat \<Rightarrow> nat \<Rightarrow> real \<Rightarrow> real list list \<Rightarrow> py_error + real list list" where
  "add_at i j v h =
     (case getitem h i of Inl e \<Rightarrow> Inl e | Inr row \<Rightarrow>
       (case getitem row j of Inl e \<Rightarrow> Inl e | Inr old \<Rightarrow> Inr (h[i := row[j := old + v]])))"

text \<open>
  Modelled from the spec: \<open>pixelization.setup_regularization_matrix_via_pixel_pairs\<close> is
  not among the sources (only its tests are). The spec has it accumulate, for every
  listed pair \<open>(a, b)\<close>, \<open>H[a,a] += weight[a]\<^sup>2\<close>, \<open>H[b,b] += weight[a]\<^sup>2\<close>,
  \<open>H[a,b] -= weight[a]\<^sup>2\<close>, \<open>H[b,a] -= weight[a]\<^sup>2\<close> for the direction from \<open>a\<close> to \<open>b\<close>,
  and the mirrored terms with \<open>weight[b]\<^sup>2\<close> for the direction from \<open>b\<close> to \<open>a\<close>.
\<close>

definition add_direction :: "real list \<Rightarrow> nat \<Rightarrow> nat \<Rightarrow> real list list \<Rightarrow> py_error + real list list" where
  "add_direction weights a b h =
     (case getitem weights a of Inl e \<Rightarrow> Inl e | Inr w \<Rightarrow>
       (case add_at a a (w ^ 2) h of Inl e \<Rightarrow> Inl e | Inr h1 \<Rightarrow>
         (case add_at b b (w ^ 2) h1 of Inl e \<Rightarrow> Inl e | Inr h2 \<Rightarrow>
           (case add_at a b (- (w ^ 2)) h2 of Inl e \<Rightarrow> Inl e | Inr h3 \<Rightarrow>
              add_at b a (- (w ^ 2)) h3))))"

definition add_pixel_pair :: "real list \<Rightarrow> nat \<times> nat \<Rightarrow> real list list \<Rightarrow> py_error + real list list" where
  "add_pixel_pair weights p h =
     (case add_direction weights (fst p) (snd p) h of
        Inl e \<Rightarrow> Inl e
      | Inr h1 \<Rightarrow> add_direction weights (snd p) (fst p) h1)"

definition setup_regularization_matrix_via_pixel_pairs ::
  "nat \<Rightarrow> real list \<Rightarrow> nat list \<Rightarrow> (nat \<times> nat) list \<Rightarrow> py_error + real list list" where
  "setup_regularization_matrix_via_pixel_pairs dimension regularization_weights no_vertices pixel_pairs =
     for_loop (add_pixel_pair regularization_weights) pixel_pairs
       (replicate dimension (replicate dimension 0))"

text \<open>
  The matrix \<open>test_b_matrix\<close> of the test
  \<open>test__one_B_matrix_size_3x3__makes_correct_regularization_matrix\<close> and the matrix
  \<open>np.matmul(test_b_matrix.T, test_b_matrix)\<close> the test compares the result with.
\<close>

definition test_b_matrix :: "real list list" where
  "test_b_matrix = [[- 1, 1, 0], [1, - 1, 0], [0, 0, 0]]"

definition test_regularization_matrix :: "real list list" where
  "test_regularization_matrix = matmul (transpose test_b_matrix) test_b_matrix"

section \<open>The formulas of the specification\<close>

text \<open>
  The covariance as the specification words it: the sum, over the observation indices
  present in both contribution maps, of the product of the two weights divided (true
  division) by the noise value.
\<close>

definition covariance_true_division :: "real list \<Rightarrow> pixel_map \<Rightarrow> pixel_map \<Rightarrow> real" where
  "covariance_true_division nv pixel_map_i pixel_map_j =
     (\<Sum>k \<in> fst ` set pixel_map_i \<inter> fst ` set pixel_map_j.
        the (map_of pixel_map_i k) * the (map_of pixel_map_j k) / nv ! k)"

text \<open>
  The data vector as the specification words it, read on pixel maps: entry \<open>r\<close> sums
  the image value times the mapping weight divided by the squared noise.
\<close>

definition d_matrix_claimed :: "pixel_map list \<Rightarrow> real list \<Rightarrow> real list \<Rightarrow> nat \<Rightarrow> real" where
  "d_matrix_claimed pms nv iv r = (\<Sum>obs < length iv. iv ! obs * entry pms r obs / (nv ! obs) ^ 2)"



section \<open>Properties of the mapping matrix\<close>









section \<open>The covariance of two pixels\<close>

text \<open>
  Claim C1. The specification has \<open>calculate_covariance\<close> sum
  \<open>pixel_map_i[k] * pixel_map_j[k] / noise[k]\<close> with true division. The code divides
  with \<open>//\<close>: for the single pixel map \<open>{0: 0.5}\<close> and noise \<open>[1.0]\<close> it returns 0
  where the formula of the specification gives 0.25.
\<close>

theorem calculate_covariance_floor_division:
  "calculate_covariance (CovarianceMatrixGenerator [[(0, 1 / 2)]] [1] [[]] 0) 0 0 = Inr 0 \<and>
   covariance_true_division [1] [(0, 1 / 2)] [(0, 1 / 2)] = 1 / 4"
proof
  show "calculate_covariance (CovarianceMatrixGenerator [[(0, 1 / 2)]] [1] [[]] 0) 0 0 = Inr 0"
    by code_simp
  show "covariance_true_division [1] [(0, 1 / 2)] [(0, 1 / 2)] = 1 / 4"
    by (simp add: covariance_true_division_def)
qed

section \<open>The data vector\<close>

text \<open>
  Claim C4. The specification has every data-vector routine sum
  \<open>image[o] * mapping[o, r] / noise[o]\<^sup>2\<close>. \<open>create_d_matrix\<close> divides with \<open>//\<close>, and by
  the noise value itself: for the pixel map \<open>{0: 0.5}\<close>, noise \<open>[1.0]\<close> and image
  \<open>[0.5]\<close> it returns \<open>[0.0]\<close> where the formula of the specification gives 0.25.
\<close>

theorem create_d_matrix_floor_division:
  "create_d_matrix [[(0, 1 / 2)]] [1] [1 / 2] = Inr [0] \<and>
   d_matrix_claimed [[(0, 1 / 2)]] [1] [1 / 2] 0 = 1 / 4"
proof
  show "create_d_matrix [[(0, 1 / 2)]] [1] [1 / 2] = Inr [0]"
    by code_simp
  show "d_matrix_claimed [[(0, 1 / 2)]] [1] [1 / 2] 0 = 1 / 4"
    by (simp add: d_matrix_claimed_def entry_def)
qed

section \<open>Inversion errors\<close>

lemma for_loop_error:
  "(\<And>x s. body x s \<noteq> Inl e) \<Longrightarrow> for_loop body xs s \<noteq> Inl e"
  by (induction xs arbitrary: s) (auto split: sum.splits)

lemma float_no_inversion_exception:
  "finite_float x \<noteq> Inl InversionException"
  "float_add a b \<noteq> Inl InversionException"
  "float_mul a b \<noteq> Inl InversionException"
  "float_truediv a b \<noteq> Inl InversionException"
  by (simp_all add: finite_float_def float_add_def float_mul_def float_truediv_def)

lemma array_no_inversion_exception:
  "unchecked_getitem xs i \<noteq> Inl InversionException"
  "setitem xs i v \<noteq> Inl InversionException"
  "getitem2 m i j \<noteq> Inl InversionException"
  "setitem2 m i j w \<noteq> Inl InversionException"
  by (simp_all add: unchecked_getitem_def setitem_def getitem2_def setitem2_def)

lemma data_vector_step_no_inversion_exception:
  "data_vector_step m iv nm i p dv \<noteq> Inl InversionException"
  by (auto simp: data_vector_step_def float_no_inversion_exception array_no_inversion_exception
        split: sum.splits)

lemma data_vector_no_inversion_exception:
  "data_vector_from_blurred_mapping_matrix_and_data m iv nm \<noteq> Inl InversionException"
  unfolding data_vector_from_blurred_mapping_matrix_and_data_def
  by (intro for_loop_error data_vector_step_no_inversion_exception)

lemma curvature_collect_no_inversion_exception:
  "curvature_collect m nm i p st \<noteq> Inl InversionException"
  by (auto simp: curvature_collect_def float_no_inversion_exception array_no_inversion_exception
        split: sum.splits prod.splits)

lemma curvature_accumulate_no_inversion_exception:
  "curvature_accumulate fl ifl i1 j1 c \<noteq> Inl InversionException"
  by (auto simp: curvature_accumulate_def float_no_inversion_exception array_no_inversion_exception
        split: sum.splits)

lemma curvature_row_no_inversion_exception:
  "curvature_row m nm i st \<noteq> Inl InversionException"
proof -
  have a: "for_loop (curvature_collect m nm i) xs s \<noteq> Inl InversionException" for xs s
    by (intro for_loop_error curvature_collect_no_inversion_exception)
  have b: "for_loop (\<lambda>i1. for_loop (curvature_accumulate fl ifl i1) ys) xs c \<noteq> Inl InversionException"
    for fl ifl xs ys c
    by (intro for_loop_error curvature_accumulate_no_inversion_exception)
  show ?thesis
    using a b by (auto simp: curvature_row_def split: sum.splits prod.splits if_splits)
qed

lemma curvature_matrix_no_inversion_exception:
  "curvature_matrix_from_blurred_mapping_matrix m nm \<noteq> Inl InversionException"
proof -
  have a: "for_loop (curvature_row m nm) xs s \<noteq> Inl InversionException" for xs s
    by (intro for_loop_error curvature_row_no_inversion_exception)
  have b: "for_loop (\<lambda>i. for_loop (curvature_mirror i) ys) xs c \<noteq> Inl InversionException" for xs ys c
    by (intro for_loop_error)
       (auto simp: curvature_mirror_def getitem2_def setitem2_def split: sum.splits if_splits)
  show ?thesis
    using a b
    by (auto simp: curvature_matrix_from_blurred_mapping_matrix_def
          curvature_matrix_from_blurred_mapping_matrix_jit_def split: sum.splits prod.splits)
qed

lemma np_add_no_inversion_exception: "np_add a b \<noteq> Inl InversionException"
  by (auto simp: np_add_def Let_def split: option.splits)

lemma inv_eval: "(case inversion_from_mapper_regularization_and_data linalg_solve [1, 1] [1, 1]
     \<lparr>shape0 = 2, shape1 = 3, item = (\<lambda>i j. if i = j then 1 else 0)\<rparr> (zeros2 3 3) of
       Inl e \<Rightarrow> e = LinAlgError | Inr v \<Rightarrow> False)"
  by code_simp

lemma crm_eval: "(case curvature_matrix_from_blurred_mapping_matrix
        \<lparr>shape0 = 2, shape1 = 3, item = (\<lambda>i j. if i = j then 1 else 0)\<rparr> [1, 1] of
      Inl e \<Rightarrow> False
    | Inr cm \<Rightarrow> (case np_add cm (zeros2 3 3) of
        Inl e \<Rightarrow> False
      | Inr crm \<Rightarrow> shape0 crm = 3 \<and> shape1 crm = 3 \<and> quadratic_form crm [0, 0, 1] = 0))"
  by code_simp

lemma not_positive_definiteI:
  "length x = shape0 a \<Longrightarrow> i < length x \<Longrightarrow> x ! i \<noteq> 0 \<Longrightarrow> quadratic_form a x \<le> 0 \<Longrightarrow>
   \<not> positive_definite a"
  unfolding positive_definite_def
  by (metis leD)

text \<open>
  Claim C2, as stated, fails. Two observation pixels mapped one to one onto the first
  two of three reconstruction pixels, unit noise and a zero regularization matrix: the
  curvature matrix has rank two, \<open>F + H\<close> is not positive definite, and the inversion
  raises the \<open>LinAlgError\<close> of the linear solver, not \<open>InversionException\<close>.
\<close>

theorem inversion_singular_counterexample:
  "(case curvature_matrix_from_blurred_mapping_matrix
           \<lparr>shape0 = 2, shape1 = 3, item = (\<lambda>i j. if i = j then 1 else 0)\<rparr> [1, 1] of
      Inl e \<Rightarrow> False
    | Inr cm \<Rightarrow> (case np_add cm (zeros2 3 3) of
        Inl e \<Rightarrow> False
      | Inr crm \<Rightarrow> \<not> positive_definite crm)) \<and>
   inversion_from_mapper_regularization_and_data linalg_solve [1, 1] [1, 1]
     \<lparr>shape0 = 2, shape1 = 3, item = (\<lambda>i j. if i = j then 1 else 0)\<rparr> (zeros2 3 3) =
     Inl LinAlgError"
proof
  show "inversion_from_mapper_regularization_and_data linalg_solve [1, 1] [1, 1]
     \<lparr>shape0 = 2, shape1 = 3, item = (\<lambda>i j. if i = j then 1 else 0)\<rparr> (zeros2 3 3) =
     Inl LinAlgError"
    using inv_eval by (auto split: sum.splits)
  have "\<not> positive_definite crm"
    if "shape0 crm = 3" "quadratic_form crm [0, 0, 1] = 0" for crm
    using that by (intro not_positive_definiteI [of "[0, 0, 1]" crm 2]) simp_all
  then show "(case curvature_matrix_from_blurred_mapping_matrix
           \<lparr>shape0 = 2, shape1 = 3, item = (\<lambda>i j. if i = j then 1 else 0)\<rparr> [1, 1] of
      Inl e \<Rightarrow> False
    | Inr cm \<Rightarrow> (case np_add cm (zeros2 3 3) of
        Inl e \<Rightarrow> False
      | Inr crm \<Rightarrow> \<not> positive_definite crm))"
    using crm_eval by (auto split: sum.splits)
qed

text \<open>
  Claim C2, amended. Whenever the Cholesky decomposition raises \<open>LinAlgError\<close> inside
  \<open>log_determinant_of_matrix_cholesky\<close>, that function raises \<open>InversionException\<close>.
  \<open>inversion_from_mapper_regularization_and_data\<close> raises \<open>InversionException\<close> only if
  the linear solver it calls does: for no image, noise map, mapping matrix and
  regularization matrix does it raise \<open>InversionException\<close> with a solver that never
  raises it.
\<close>

theorem cholesky_failure_raises:
  "(cholesky m = Inl LinAlgError \<longrightarrow>
      log_determinant_of_matrix_cholesky cholesky m = Inl InversionException) \<and>
   ((\<forall>a b. solve a b \<noteq> Inl InversionException) \<longrightarrow>
      inversion_from_mapper_regularization_and_data solve image_v noise_map bmm reg
        \<noteq> Inl InversionException)"
proof (intro conjI impI)
  assume "cholesky m = Inl LinAlgError"
  then show "log_determinant_of_matrix_cholesky cholesky m = Inl InversionException"
    by (simp add: log_determinant_of_matrix_cholesky_def)
next
  assume "\<forall>a b. solve a b \<noteq> Inl InversionException"
  then show "inversion_from_mapper_regularization_and_data solve image_v noise_map bmm reg
      \<noteq> Inl InversionException"
    using data_vector_no_inversion_exception [of bmm image_v noise_map]
      curvature_matrix_no_inversion_exception [of bmm noise_map]
      np_add_no_inversion_exception
    by (auto simp: inversion_from_mapper_regularization_and_data_def split: sum.splits)
qed

text \<open>
  The theorem on the symmetric matrix \<open>[[1, 2], [2, 1]]\<close>, which is not positive
  definite (the second pivot is \<open>1 - 2\<^sup>2 = -3\<close>), and on the inversion above.
\<close>

lemma linalg_cholesky_indefinite:
  "linalg_cholesky \<lparr>shape0 = 2, shape1 = 2, item = (\<lambda>i j. if i = j then 1 else 2)\<rparr> =
     Inl LinAlgError"
  by (simp add: linalg_cholesky_def cholesky_row_def numeral_2_eq_2)

lemma linalg_solve_error: "linalg_solve a b \<noteq> Inl InversionException"
  by (simp add: linalg_solve_def)

theorem cholesky_failure_raises_witness:
  "linalg_cholesky \<lparr>shape0 = 2, shape1 = 2, item = (\<lambda>i j. if i = j then 1 else 2)\<rparr> =
     Inl LinAlgError \<and>
   log_determinant_of_matrix_cholesky linalg_cholesky
     \<lparr>shape0 = 2, shape1 = 2, item = (\<lambda>i j. if i = j then 1 else 2)\<rparr> = Inl InversionException \<and>
   (\<forall>a b. linalg_solve a b \<noteq> Inl InversionException) \<and>
   inversion_from_mapper_regularization_and_data linalg_solve [1, 1] [1, 1]
     \<lparr>shape0 = 2, shape1 = 3, item = (\<lambda>i j. if i = j then 1 else 0)\<rparr> (zeros2 3 3)
     \<noteq> Inl InversionException"
  using cholesky_failure_raises [of linalg_cholesky
      "\<lparr>shape0 = 2, shape1 = 2, item = (\<lambda>i j. if i = j then 1 else 2)\<rparr>" linalg_solve
      "[1, 1]" "[1, 1]"
      "\<lparr>shape0 = 2, shape1 = 3, item = (\<lambda>i j. if i = j then 1 else 0)\<rparr>" "zeros2 3 3"]
    linalg_cholesky_indefinite linalg_solve_error
  by blast

section \<open>The regularization matrix of the 3 by 3 scenario\<close>

text \<open>
  Claim C3, as stated, fails: the builder accumulates both directions of the pair
  \<open>(0, 1)\<close>, so the entries are 2 and -2, not 1 and -1.
\<close>

theorem regularization_counterexample:
  "setup_regularization_matrix_via_pixel_pairs 3 [1, 1, 1] [1, 1, 0] [(0, 1)] \<noteq>
     Inr [[1, - 1, 0], [- 1, 1, 0], [0, 0, 0]]"
  by code_simp

text \<open>
  Claim C3, amended. For three pixels, the single pair \<open>(0, 1)\<close>, unit weights and
  neighbour counts \<open>[1, 1, 0]\<close> the builder returns
  \<open>[[2, -2, 0], [-2, 2, 0], [0, 0, 0]]\<close>, which is the matrix
  \<open>np.matmul(test_b_matrix.T, test_b_matrix)\<close> the test of the repository expects.
\<close>

theorem regularization_3x3:
  "setup_regularization_matrix_via_pixel_pairs 3 [1, 1, 1] [1, 1, 0] [(0, 1)] =
     Inr [[2, - 2, 0], [- 2, 2, 0], [0, 0, 0]] \<and>
   test_regularization_matrix = [[2, - 2, 0], [- 2, 2, 0], [0, 0, 0]]"
  by code_simp

section \<open>The covariance generator\<close>

subsection \<open>Invariants carried through the two passes\<close>

lemma add_covariance_for_indices_result:
  assumes "add_covariance_for_indices g a b = Inr (v, g')"
  shows "g' = g\<lparr>calculated_covariances := (calculated_covariances g)((a, b) \<mapsto> v)\<rparr>"
    and "calculated_covariances g (a, b) = Some v \<or>
         (calculated_covariances g (a, b) = None \<and>
          (calculated_covariances g (b, a) = Some v \<or>
           (calculated_covariances g (b, a) = None \<and> calculate_covariance g a b = Inr v)))"
  using assms
  by (auto simp: add_covariance_for_indices_def Let_def fun_upd_idem
           split: option.splits sum.splits)

lemma for_loop_invariant:
  assumes "for_loop body xs s = Inr s'" and "P s"
    and "\<And>x t t'. x \<in> set xs \<Longrightarrow> P t \<Longrightarrow> body x t = Inr t' \<Longrightarrow> P t'"
  shows "P s'"
  using assms
proof (induction xs arbitrary: s)
  case Nil
  then show ?case by simp
next
  case (Cons x xs)
  from Cons.prems(1) obtain s1 where s1: "body x s = Inr s1" "for_loop body xs s1 = Inr s'"
    by (auto split: sum.splits)
  have "P s1" using Cons.prems(3) [of x s s1] Cons.prems(2) s1(1) by simp
  with s1(2) show ?case
    using Cons.prems(3) by (intro Cons.IH [of s1]) auto
qed

lemma contiguous_loop_invariant:
  assumes "contiguous_loop s g b = Inr (g', b')" and "P g"
    and cov: "\<And>h x y r h'. P h \<Longrightarrow> add_covariance_for_indices h x y = Inr (r, h') \<Longrightarrow> P h'"
    and rec: "\<And>h k r. P h \<Longrightarrow> calculated_covariances h k = Some r \<Longrightarrow>
                P (h\<lparr>non_zero_covariances := (non_zero_covariances h)(k \<mapsto> r)\<rparr>)"
    and nls: "\<And>h nl. P h \<Longrightarrow> P (h\<lparr>neighbour_lists := nl\<rparr>)"
  shows "P g'"
  using assms(1,2)
proof (induction s g b rule: contiguous_loop.induct)
  case (1 s g b)
  show ?case
  proof (cases "neighbours b")
    case None
    with "1.prems" show ?thesis
      by (subst (asm) contiguous_loop.simps) simp
  next
    case (Some x)
    obtain index b1 where x: "x = (index, b1)" by (cases x)
    from "1.prems"(1) Some x obtain r g1 where
      ac: "add_covariance_for_indices g s index = Inr (r, g1)"
      by (subst (asm) contiguous_loop.simps) (auto split: sum.splits)
    have g1: "P g1" using cov [OF "1.prems"(2) ac] .
    have c1: "calculated_covariances g1 (s, index) = Some r"
      using add_covariance_for_indices_result(1) [OF ac] by simp
    show ?thesis
    proof (cases "r > neighbour_search_limit g1")
      case True
      from "1.prems"(1) Some x ac True obtain l b2 where
        l: "getitem (neighbour_lists g1) s = Inr l"
        and b2: "add_neighbours_of b1 index = Inr b2"
        and rest: "contiguous_loop s
            (g1\<lparr>neighbour_lists := (neighbour_lists g1)[s := l @ [index]],
                non_zero_covariances := (non_zero_covariances g1)((s, index) \<mapsto> r)\<rparr>) b2 =
            Inr (g', b')"
        by (subst (asm) contiguous_loop.simps) (auto split: sum.splits)
      have "P (g1\<lparr>neighbour_lists := (neighbour_lists g1)[s := l @ [index]],
                non_zero_covariances := (non_zero_covariances g1)((s, index) \<mapsto> r)\<rparr>)"
        using rec [OF nls [OF g1, of "(neighbour_lists g1)[s := l @ [index]]"], of "(s, index)" r] c1
        by simp
      with "1.IH"(1) [OF Some x [symmetric] ac refl True l b2 rest] show ?thesis .
    next
      case False
      from "1.prems"(1) Some x ac False have
        rest: "contiguous_loop s g1 b1 = Inr (g', b')"
        by (subst (asm) contiguous_loop.simps) (auto split: sum.splits)
      from "1.IH"(2) [OF Some x [symmetric] ac refl False rest g1] show ?thesis .
    qed
  qed
qed

lemma find_contiguous_covariances_invariant:
  assumes "find_contiguous_covariances g s = Inr g'" and "P g"
    and cov: "\<And>h x y r h'. P h \<Longrightarrow> add_covariance_for_indices h x y = Inr (r, h') \<Longrightarrow> P h'"
    and rec: "\<And>h k r. P h \<Longrightarrow> calculated_covariances h k = Some r \<Longrightarrow>
                P (h\<lparr>non_zero_covariances := (non_zero_covariances h)(k \<mapsto> r)\<rparr>)"
    and nls: "\<And>h nl. P h \<Longrightarrow> P (h\<lparr>neighbour_lists := nl\<rparr>)"
  shows "P g'"
proof -
  from assms(1) obtain v g1 b b' where
    ac: "add_covariance_for_indices g s s = Inr (v, g1)"
    and loop: "contiguous_loop s
        (g1\<lparr>non_zero_covariances := (non_zero_covariances g1)((s, s) \<mapsto> v)\<rparr>) b = Inr (g', b')"
    by (auto simp: find_contiguous_covariances_def Let_def split: sum.splits)
  have "P g1" using cov [OF assms(2) ac] .
  moreover have "calculated_covariances g1 (s, s) = Some v"
    using add_covariance_for_indices_result(1) [OF ac] by simp
  ultimately have "P (g1\<lparr>non_zero_covariances := (non_zero_covariances g1)((s, s) \<mapsto> v)\<rparr>)"
    by (rule rec)
  from contiguous_loop_invariant [of s _ b g' b' P, OF loop this cov rec nls]
  show ?thesis .
qed

lemma find_all_contiguous_covariances_invariant:
  assumes "find_all_contiguous_covariances g = Inr g'" and "P g"
    and cov: "\<And>h x y r h'. P h \<Longrightarrow> add_covariance_for_indices h x y = Inr (r, h') \<Longrightarrow> P h'"
    and rec: "\<And>h k r. P h \<Longrightarrow> calculated_covariances h k = Some r \<Longrightarrow>
                P (h\<lparr>non_zero_covariances := (non_zero_covariances h)(k \<mapsto> r)\<rparr>)"
    and nls: "\<And>h nl. P h \<Longrightarrow> P (h\<lparr>neighbour_lists := nl\<rparr>)"
  shows "P g'"
proof (rule for_loop_invariant [of "\<lambda>index g'. find_contiguous_covariances g' index"
      "[0..<no_source_pixels g]" g g' P])
  show "for_loop (\<lambda>index g'. find_contiguous_covariances g' index) [0..<no_source_pixels g] g = Inr g'"
    using assms(1) by (simp add: find_all_contiguous_covariances_def)
  show "P g" by fact
  fix x t t'
  assume "P t" "find_contiguous_covariances t x = Inr t'"
  from this(2,1) cov rec nls show "P t'"
    by (rule find_contiguous_covariances_invariant)
qed

lemma non_contiguous_pair_invariant:
  assumes "non_contiguous_pair a b g = Inr g'" and "P g"
    and cov: "\<And>h x y r h'. P h \<Longrightarrow> add_covariance_for_indices h x y = Inr (r, h') \<Longrightarrow> P h'"
    and rec: "\<And>h k r. P h \<Longrightarrow> calculated_covariances h k = Some r \<Longrightarrow>
                P (h\<lparr>non_zero_covariances := (non_zero_covariances h)(k \<mapsto> r)\<rparr>)"
  shows "P g'"
proof (cases "a = b")
  case True
  with assms(1,2) show ?thesis by (simp add: non_contiguous_pair_def)
next
  case False
  with assms(1) obtain r g1 where
    ac: "add_covariance_for_indices g a b = Inr (r, g1)"
    and g': "g' = (if r > 0
               then g1\<lparr>non_zero_covariances := (non_zero_covariances g1)((a, b) \<mapsto> r)\<rparr>
               else g1)"
    by (auto simp: non_contiguous_pair_def split: sum.splits if_splits)
  have g1: "P g1" using cov [OF assms(2) ac] .
  have "calculated_covariances g1 (a, b) = Some r"
    using add_covariance_for_indices_result(1) [OF ac] by simp
  from rec [OF g1 this] g1 g' show ?thesis by simp
qed

lemma find_all_non_contiguous_covariances_invariant:
  assumes "find_all_non_contiguous_covariances g = Inr g'" and "P g"
    and cov: "\<And>h x y r h'. P h \<Longrightarrow> add_covariance_for_indices h x y = Inr (r, h') \<Longrightarrow> P h'"
    and rec: "\<And>h k r. P h \<Longrightarrow> calculated_covariances h k = Some r \<Longrightarrow>
                P (h\<lparr>non_zero_covariances := (non_zero_covariances h)(k \<mapsto> r)\<rparr>)"
  shows "P g'"
proof -
  have pair: "P t'" if "P t" "non_contiguous_pair a b t = Inr t'" for a b t t'
    using that(2,1) cov rec by (rule non_contiguous_pair_invariant)
  have inner: "P t'" if "P t" "for_loop (\<lambda>b. non_contiguous_pair a b) l t = Inr t'" for a l t t'
    using that(2,1) pair by (rule for_loop_invariant)
  have middle: "P t'"
    if "P t" "for_loop (\<lambda>a. for_loop (\<lambda>b. non_contiguous_pair a b) l) l' t = Inr t'" for l l' t t'
    using that(2,1) inner by (rule for_loop_invariant)
  show ?thesis
    using assms(1) [unfolded find_all_non_contiguous_covariances_def] assms(2) middle
    by (rule for_loop_invariant)
qed

lemma create_covariance_matrix_invariant:
  assumes "create_covariance_matrix pms nv gr limit = Inr m"
    and "P (CovarianceMatrixGenerator pms nv gr limit)"
    and cov: "\<And>h x y r h'. P h \<Longrightarrow> add_covariance_for_indices h x y = Inr (r, h') \<Longrightarrow> P h'"
    and rec: "\<And>h k r. P h \<Longrightarrow> calculated_covariances h k = Some r \<Longrightarrow>
                P (h\<lparr>non_zero_covariances := (non_zero_covariances h)(k \<mapsto> r)\<rparr>)"
    and nls: "\<And>h nl. P h \<Longrightarrow> P (h\<lparr>neighbour_lists := nl\<rparr>)"
  shows "\<exists>g'. P g' \<and> m = non_zero_covariances g'"
proof -
  from assms(1) obtain g1 g2 where
    g1: "find_all_contiguous_covariances (CovarianceMatrixGenerator pms nv gr limit) = Inr g1"
    and g2: "find_all_non_contiguous_covariances g1 = Inr g2"
    and m: "m = non_zero_covariances g2"
    by (auto simp: create_covariance_matrix_def split: sum.splits)
  have "P g1"
    using g1 assms(2) cov rec nls by (rule find_all_contiguous_covariances_invariant)
  with g2 have "P g2"
    using cov rec by (rule find_all_non_contiguous_covariances_invariant)
  with m show ?thesis by blast
qed

lemma cache_consistent_cov:
  assumes "cache_consistent h" "add_covariance_for_indices h x y = Inr (r, h')"
  shows "cache_consistent h'"
proof -
  note res = add_covariance_for_indices_result [OF assms(2)]
  have upd: "calculated_covariances h' k = (if k = (x, y) then Some r else calculated_covariances h k)"
    for k
    using res(1) by simp
  have nzc: "non_zero_covariances h' = non_zero_covariances h"
    using res(1) by simp
  have sym: "v = w"
    if "calculated_covariances h (a, b) = Some v" "calculated_covariances h (b, a) = Some w"
    for a b v w
    using assms(1) that unfolding cache_consistent_def by blast
  have key: "u = r" if "calculated_covariances h (y, x) = Some u" for u
    using res(2) that sym [of x y r u] by auto
  show ?thesis
    unfolding cache_consistent_def
  proof (intro conjI allI impI)
    fix a b v w
    assume ab: "calculated_covariances h' (a, b) = Some v"
      and ba: "calculated_covariances h' (b, a) = Some w"
    consider (here) "(a, b) = (x, y)" | (mirror) "(a, b) \<noteq> (x, y)" "(b, a) = (x, y)"
      | (other) "(a, b) \<noteq> (x, y)" "(b, a) \<noteq> (x, y)"
      by blast
    then show "v = w"
    proof cases
      case here
      then have v: "v = r" using ab upd by simp
      show ?thesis
      proof (cases "x = y")
        case True
        with here ba upd have "w = r" by simp
        with v show ?thesis by simp
      next
        case False
        with here ba upd have "calculated_covariances h (y, x) = Some w" by simp
        from key [OF this] v show ?thesis by simp
      qed
    next
      case mirror
      then have w: "w = r" using ba upd by simp
      from mirror ab upd have "calculated_covariances h (y, x) = Some v" by simp
      from key [OF this] w show ?thesis by simp
    next
      case other
      with ab ba upd have "calculated_covariances h (a, b) = Some v"
        "calculated_covariances h (b, a) = Some w"
        by (auto split: if_splits)
      then show ?thesis by (rule sym)
    qed
  next
    fix k v
    assume "non_zero_covariances h' k = Some v"
    with nzc have "calculated_covariances h k = Some v"
      using assms(1) unfolding cache_consistent_def by (cases k) simp
    moreover have "calculated_covariances h (x, y) = Some r' \<Longrightarrow> r' = r" for r'
      using res(2) by auto
    ultimately show "calculated_covariances h' k = Some v"
      using upd by auto
  qed
qed

lemma cache_consistent_rec:
  "cache_consistent h \<Longrightarrow> calculated_covariances h k = Some r \<Longrightarrow>
   cache_consistent (h\<lparr>non_zero_covariances := (non_zero_covariances h)(k \<mapsto> r)\<rparr>)"
  by (auto simp: cache_consistent_def)

lemma cache_consistent_nls: "cache_consistent h \<Longrightarrow> cache_consistent (h\<lparr>neighbour_lists := nl\<rparr>)"
  by (simp add: cache_consistent_def)

lemma cache_consistent_init: "cache_consistent (CovarianceMatrixGenerator pms nv gr limit)"
  by (simp add: cache_consistent_def CovarianceMatrixGenerator_def)

text \<open>
  A run on three pixels: pixel 0 covers the observation pixels 0 and 1, pixel 1 covers 0,
  pixel 2 covers 1; the graph is the path 0 - 1 - 2, unit noise, threshold 0.
\<close>

lemma float_unit_ops:
  "float_mul 1 1 = Inr 1" "float_floordiv 1 1 = Inr 1" "float_add 0 1 = Inr 1"
  by code_simp+

lemma three_pixel_run:
  "(case create_covariance_matrix [[(0, 1), (1, 1)], [(0, 1)], [(1, 1)]] [1, 1]
           [[1], [0, 2], [1]] 0 of
      Inl e \<Rightarrow> False
    | Inr m \<Rightarrow> m (0, 1) = Some 1 \<and> m (1, 0) = Some 1 \<and> m (0, 2) = Some 1 \<and> m (2, 0) = None \<and>
        m (0, 0) = Some 2 \<and> m (1, 1) = Some 1 \<and> m (2, 2) = Some 1)"
  by code_simp

subsection \<open>Symmetry and memoisation\<close>

text \<open>
  Claim C6, as stated, fails: the map is not symmetric in its keys. In the run on three
  pixels the search seeded at 0 accepts 1 and then reaches 2, so \<open>(0, 2)\<close> is recorded
  with value 1; the search seeded at 2 rejects 1 (covariance 0) and never reaches 0, so
  \<open>(2, 0)\<close> is absent and \<open>value(2, 0)\<close> is a \<open>KeyError\<close>.
\<close>

theorem recorded_pair_without_mirror:
  "(case create_covariance_matrix [[(0, 1), (1, 1)], [(0, 1)], [(1, 1)]] [1, 1]
           [[1], [0, 2], [1]] 0 of
      Inl e \<Rightarrow> False
    | Inr m \<Rightarrow> m (0, 2) = Some 1 \<and> m (2, 0) = None)"
  using three_pixel_run by (auto split: sum.splits)

text \<open>
  Claim C6, amended. Whenever both \<open>(i, j)\<close> and \<open>(j, i)\<close> are recorded in the map that
  \<open>create_covariance_matrix\<close> returns, their values are equal. Every value that
  \<open>add_covariance_for_indices\<close> returns is cached under the ordered pair asked for; a
  request for \<open>(x, y)\<close> not yet cached whose mirror \<open>(y, x)\<close> is cached returns the
  mirror's value without computing, and a cached pair is returned with the generator
  unchanged.
\<close>

theorem recorded_values_agree:
  "(create_covariance_matrix pms nv gr limit = Inr m \<longrightarrow>
      m (i, j) = Some v \<longrightarrow> m (j, i) = Some w \<longrightarrow> v = w) \<and>
   (add_covariance_for_indices g a b = Inr (c, g') \<longrightarrow>
      calculated_covariances g' (a, b) = Some c) \<and>
   (calculated_covariances h (x, y) = None \<longrightarrow> calculated_covariances h (y, x) = Some z \<longrightarrow>
      add_covariance_for_indices h x y =
        Inr (z, h\<lparr>calculated_covariances := (calculated_covariances h)((x, y) \<mapsto> z)\<rparr>)) \<and>
   (calculated_covariances k (p, q) = Some u \<longrightarrow>
      add_covariance_for_indices k p q = Inr (u, k))"
proof (intro conjI impI)
  assume "create_covariance_matrix pms nv gr limit = Inr m"
  then have "\<exists>h. cache_consistent h \<and> m = non_zero_covariances h"
    using cache_consistent_init cache_consistent_cov cache_consistent_rec cache_consistent_nls
    by (rule create_covariance_matrix_invariant)
  then obtain h where h: "cache_consistent h" "m = non_zero_covariances h"
    by blast
  assume "m (i, j) = Some v" "m (j, i) = Some w"
  with h show "v = w"
    unfolding cache_consistent_def by blast
next
  assume "add_covariance_for_indices g a b = Inr (c, g')"
  from add_covariance_for_indices_result(1) [OF this]
  show "calculated_covariances g' (a, b) = Some c" by simp
next
  assume "calculated_covariances h (x, y) = None" "calculated_covariances h (y, x) = Some z"
  then show "add_covariance_for_indices h x y =
      Inr (z, h\<lparr>calculated_covariances := (calculated_covariances h)((x, y) \<mapsto> z)\<rparr>)"
    by (simp add: add_covariance_for_indices_def)
next
  assume "calculated_covariances k (p, q) = Some u"
  then show "add_covariance_for_indices k p q = Inr (u, k)"
    by (simp add: add_covariance_for_indices_def)
qed

text \<open>
  The theorem on the run on three pixels, where \<open>(0, 1)\<close> and \<open>(1, 0)\<close> are both
  recorded, and on small generators for the three cases of the lookup.
\<close>

theorem recorded_values_agree_witness:
  "(case create_covariance_matrix [[(0, 1), (1, 1)], [(0, 1)], [(1, 1)]] [1, 1]
           [[1], [0, 2], [1]] 0 of
      Inl e \<Rightarrow> False
    | Inr m \<Rightarrow> m (0, 1) = Some 1 \<and> m (1, 0) = Some 1 \<and> m (0, 1) = m (1, 0)) \<and>
   add_covariance_for_indices (CovarianceMatrixGenerator [[(0, 1)]] [1] [[]] 0) 0 0 =
     Inr (1, (CovarianceMatrixGenerator [[(0, 1)]] [1] [[]] 0)
               \<lparr>calculated_covariances := [(0, 0) \<mapsto> 1]\<rparr>) \<and>
   calculated_covariances ((CovarianceMatrixGenerator [[(0, 1)]] [1] [[]] 0)
               \<lparr>calculated_covariances := [(0, 0) \<mapsto> 1]\<rparr>) (0, 0) = Some 1 \<and>
   add_covariance_for_indices ((CovarianceMatrixGenerator [[(0, 1)], []] [1] [[], []] 0)
               \<lparr>calculated_covariances := [(1, 0) \<mapsto> 5]\<rparr>) 0 1 =
     Inr (5, (CovarianceMatrixGenerator [[(0, 1)], []] [1] [[], []] 0)
               \<lparr>calculated_covariances := [(1, 0) \<mapsto> 5, (0, 1) \<mapsto> 5]\<rparr>) \<and>
   add_covariance_for_indices ((CovarianceMatrixGenerator [[(0, 1)], []] [1] [[], []] 0)
               \<lparr>calculated_covariances := [(0, 1) \<mapsto> 5]\<rparr>) 0 1 =
     Inr (5, (CovarianceMatrixGenerator [[(0, 1)], []] [1] [[], []] 0)
               \<lparr>calculated_covariances := [(0, 1) \<mapsto> 5]\<rparr>)"
proof -
  let ?g = "CovarianceMatrixGenerator [[(0, 1)]] [1] [[]] 0"
  let ?h = "CovarianceMatrixGenerator [[(0, 1)], []] [1] [[], []] 0"
  obtain m where m: "create_covariance_matrix [[(0, 1), (1, 1)], [(0, 1)], [(1, 1)]] [1, 1]
           [[1], [0, 2], [1]] 0 = Inr m" "m (0, 1) = Some 1" "m (1, 0) = Some 1"
    using three_pixel_run by (auto split: sum.splits)
  have a: "add_covariance_for_indices ?g 0 0 =
      Inr (1, ?g\<lparr>calculated_covariances := [(0, 0) \<mapsto> 1]\<rparr>)"
    by (simp add: add_covariance_for_indices_def CovarianceMatrixGenerator_def
        calculate_covariance_def getitem_def covariance_term_def dict_getitem_def float_sum_def
        float_unit_ops)
  note inst = recorded_values_agree [where pms = "[[(0, 1), (1, 1)], [(0, 1)], [(1, 1)]]"
      and nv = "[1, 1]" and gr = "[[1], [0, 2], [1]]" and limit = 0 and m = m and i = 0 and j = 1
      and v = 1 and w = 1 and g = "?g" and a = 0 and b = 0 and c = 1
      and g' = "?g\<lparr>calculated_covariances := [(0, 0) \<mapsto> 1]\<rparr>"
      and h = "?h\<lparr>calculated_covariances := [(1, 0) \<mapsto> 5]\<rparr>" and x = 0 and y = 1
      and z = 5
      and k = "?h\<lparr>calculated_covariances := [(0, 1) \<mapsto> 5]\<rparr>" and p = 0 and q = 1
      and u = 5]
  show ?thesis
    using inst m a by simp
qed

subsection \<open>The diagonal\<close>

lemma calculate_covariance_cong:
  "pixel_maps h = pixel_maps g \<Longrightarrow> noise_vector h = noise_vector g \<Longrightarrow>
   calculate_covariance h a b = calculate_covariance g a b"
  by (auto simp: calculate_covariance_def split: sum.splits)

lemma diagonal_sound_cov:
  assumes "diagonal_sound g0 h" "add_covariance_for_indices h x y = Inr (r, h')"
  shows "diagonal_sound g0 h'"
proof -
  note res = add_covariance_for_indices_result [OF assms(2)]
  have upd: "calculated_covariances h' k = (if k = (x, y) then Some r else calculated_covariances h k)"
    for k
    using res(1) by simp
  have same: "pixel_maps h' = pixel_maps h" "noise_vector h' = noise_vector h"
    "no_source_pixels h' = no_source_pixels h" "non_zero_covariances h' = non_zero_covariances h"
    using res(1) by simp_all
  have old: "calculate_covariance g0 a a = Inr v" if "calculated_covariances h (a, a) = Some v" for a v
    using assms(1) that unfolding diagonal_sound_def by blast
  have calc: "calculate_covariance h a b = calculate_covariance g0 a b" for a b
    using assms(1) unfolding diagonal_sound_def by (intro calculate_covariance_cong) simp_all
  have new: "calculate_covariance g0 x x = Inr r" if "x = y"
    using res(2) that old [of x r] calc [of x x] by auto
  show ?thesis
    unfolding diagonal_sound_def
  proof (intro conjI allI impI)
    fix a v
    assume "calculated_covariances h' (a, a) = Some v"
    then show "calculate_covariance g0 a a = Inr v"
      using upd [of "(a, a)"] new old [of a v] by (auto split: if_splits)
  next
    fix a v
    assume "non_zero_covariances h' (a, a) = Some v"
    then have c: "calculated_covariances h (a, a) = Some v"
      using same(4) assms(1) unfolding diagonal_sound_def by simp
    have "r = v" if "(a, a) = (x, y)"
      using res(2) c that by auto
    then show "calculated_covariances h' (a, a) = Some v"
      using upd [of "(a, a)"] c by auto
  qed (use same assms(1) in \<open>simp_all add: diagonal_sound_def\<close>)
qed

lemma diagonal_sound_rec:
  "diagonal_sound g0 h \<Longrightarrow> calculated_covariances h k = Some r \<Longrightarrow>
   diagonal_sound g0 (h\<lparr>non_zero_covariances := (non_zero_covariances h)(k \<mapsto> r)\<rparr>)"
  by (auto simp: diagonal_sound_def)

lemma diagonal_sound_nls: "diagonal_sound g0 h \<Longrightarrow> diagonal_sound g0 (h\<lparr>neighbour_lists := nl\<rparr>)"
  by (simp add: diagonal_sound_def)

lemma diagonal_sound_init:
  "diagonal_sound (CovarianceMatrixGenerator pms nv gr limit)
     (CovarianceMatrixGenerator pms nv gr limit)"
  by (simp add: diagonal_sound_def CovarianceMatrixGenerator_def)

text \<open>A key of the output map is never removed.\<close>

lemma recorded_cov:
  "non_zero_covariances h k \<noteq> None \<Longrightarrow> add_covariance_for_indices h x y = Inr (r, h') \<Longrightarrow>
   non_zero_covariances h' k \<noteq> None"
  using add_covariance_for_indices_result(1) [of h x y r h'] by simp

lemma recorded_rec:
  "non_zero_covariances h k \<noteq> None \<Longrightarrow> calculated_covariances h k' = Some r \<Longrightarrow>
   non_zero_covariances (h\<lparr>non_zero_covariances := (non_zero_covariances h)(k' \<mapsto> r)\<rparr>) k \<noteq> None"
  by simp

lemma recorded_nls:
  "non_zero_covariances h k \<noteq> None \<Longrightarrow> non_zero_covariances (h\<lparr>neighbour_lists := nl\<rparr>) k \<noteq> None"
  by simp

lemma find_contiguous_covariances_keeps:
  assumes "find_contiguous_covariances g s = Inr g'" "non_zero_covariances g k \<noteq> None"
  shows "non_zero_covariances g' k \<noteq> None"
  using assms recorded_cov recorded_rec recorded_nls
  by (rule find_contiguous_covariances_invariant [where P = "\<lambda>h. non_zero_covariances h k \<noteq> None"])

lemma find_contiguous_covariances_diagonal:
  assumes "find_contiguous_covariances g s = Inr g'"
  shows "non_zero_covariances g' (s, s) \<noteq> None"
proof -
  from assms obtain v g1 b b' where
    loop: "contiguous_loop s
        (g1\<lparr>non_zero_covariances := (non_zero_covariances g1)((s, s) \<mapsto> v)\<rparr>) b = Inr (g', b')"
    by (auto simp: find_contiguous_covariances_def Let_def split: sum.splits)
  have "non_zero_covariances
      (g1\<lparr>non_zero_covariances := (non_zero_covariances g1)((s, s) \<mapsto> v)\<rparr>) (s, s) \<noteq> None"
    by simp
  with loop show ?thesis
    using recorded_cov recorded_rec recorded_nls
    by (rule contiguous_loop_invariant [where P = "\<lambda>h. non_zero_covariances h (s, s) \<noteq> None"])
qed

lemma find_contiguous_covariances_no_source_pixels:
  assumes "find_contiguous_covariances g s = Inr g'"
  shows "no_source_pixels g' = no_source_pixels g"
proof -
  have "no_source_pixels g' = no_source_pixels g"
    using assms refl
  proof (rule find_contiguous_covariances_invariant
      [where P = "\<lambda>h. no_source_pixels h = no_source_pixels g"])
    fix h x y r h'
    assume "no_source_pixels h = no_source_pixels g" "add_covariance_for_indices h x y = Inr (r, h')"
    then show "no_source_pixels h' = no_source_pixels g"
      using add_covariance_for_indices_result(1) [of h x y r h'] by simp
  qed simp_all
  then show ?thesis .
qed

lemma for_loop_find_contiguous_diagonal:
  assumes "for_loop (\<lambda>index g'. find_contiguous_covariances g' index) xs g = Inr g'"
    and "s \<in> set xs"
  shows "non_zero_covariances g' (s, s) \<noteq> None"
  using assms
proof (induction xs arbitrary: g)
  case Nil
  then show ?case by simp
next
  case (Cons x xs)
  from Cons.prems(1) obtain g1 where
    g1: "find_contiguous_covariances g x = Inr g1"
    and rest: "for_loop (\<lambda>index g'. find_contiguous_covariances g' index) xs g1 = Inr g'"
    by (auto split: sum.splits)
  show ?case
  proof (cases "s \<in> set xs")
    case True
    with rest show ?thesis by (rule Cons.IH)
  next
    case False
    with Cons.prems(2) have "s = x" by simp
    with g1 have "non_zero_covariances g1 (s, s) \<noteq> None"
      using find_contiguous_covariances_diagonal by simp
    with rest show ?thesis
    proof (rule for_loop_invariant [where P = "\<lambda>h. non_zero_covariances h (s, s) \<noteq> None"])
      fix y t t'
      assume "non_zero_covariances t (s, s) \<noteq> None" "find_contiguous_covariances t y = Inr t'"
      from this(2,1) show "non_zero_covariances t' (s, s) \<noteq> None"
        by (rule find_contiguous_covariances_keeps)
    qed
  qed
qed

text \<open>
  Claim C5. Whenever \<open>create_covariance_matrix\<close> returns a map, the map holds the
  diagonal key \<open>(s, s)\<close> of every pixel \<open>s\<close>, whatever the graph and the threshold, and
  the value recorded there is the one \<open>calculate_covariance\<close> computes for \<open>(s, s)\<close>.
\<close>

theorem diagonal_always_recorded:
  assumes "create_covariance_matrix pms nv gr limit = Inr m" and "s < length pms"
  shows "\<exists>v. m (s, s) = Some v \<and>
           calculate_covariance (CovarianceMatrixGenerator pms nv gr limit) s s = Inr v"
proof -
  let ?g = "CovarianceMatrixGenerator pms nv gr limit"
  from assms(1) obtain g1 g2 where
    g1: "find_all_contiguous_covariances ?g = Inr g1"
    and g2: "find_all_non_contiguous_covariances g1 = Inr g2"
    and m: "m = non_zero_covariances g2"
    by (auto simp: create_covariance_matrix_def split: sum.splits)
  have "s \<in> set [0..<no_source_pixels ?g]"
    using assms(2) by (simp add: CovarianceMatrixGenerator_def)
  with g1 have "non_zero_covariances g1 (s, s) \<noteq> None"
    unfolding find_all_contiguous_covariances_def by (rule for_loop_find_contiguous_diagonal)
  with g2 have "non_zero_covariances g2 (s, s) \<noteq> None"
    using recorded_cov recorded_rec
    by (rule find_all_non_contiguous_covariances_invariant
        [where P = "\<lambda>h. non_zero_covariances h (s, s) \<noteq> None"])
  then obtain v where v: "m (s, s) = Some v"
    using m by auto
  have "\<exists>h. diagonal_sound ?g h \<and> m = non_zero_covariances h"
    using assms(1) diagonal_sound_init diagonal_sound_cov diagonal_sound_rec diagonal_sound_nls
    by (rule create_covariance_matrix_invariant)
  then obtain h where h: "diagonal_sound ?g h" "m = non_zero_covariances h"
    by blast
  with v have "calculate_covariance ?g s s = Inr v"
    unfolding diagonal_sound_def by blast
  with v show ?thesis by blast
qed

text \<open>The theorem at pixel 0 of the run on three pixels.\<close>

theorem diagonal_always_recorded_witness:
  "(case create_covariance_matrix [[(0, 1), (1, 1)], [(0, 1)], [(1, 1)]] [1, 1]
           [[1], [0, 2], [1]] 0 of
      Inl e \<Rightarrow> False
    | Inr m \<Rightarrow> (0::nat) < length [[(0::nat, 1::real), (1, 1)], [(0, 1)], [(1, 1)]] \<and>
        m (0, 0) = Some 2 \<and>
        calculate_covariance (CovarianceMatrixGenerator [[(0, 1), (1, 1)], [(0, 1)], [(1, 1)]]
          [1, 1] [[1], [0, 2], [1]] 0) 0 0 = Inr 2)"
proof -
  obtain m where m: "create_covariance_matrix [[(0, 1), (1, 1)], [(0, 1)], [(1, 1)]] [1, 1]
           [[1], [0, 2], [1]] 0 = Inr m" "m (0, 0) = Some 2"
    using three_pixel_run by (auto split: sum.splits)
  from diagonal_always_recorded [OF m(1), of 0] m show ?thesis
    by auto
qed

end
